theory Spec2Isabelle
  imports Complex_Main "HOL-Library.Char_ord" "HOL-Library.List_Lexorder" "HOL-Library.Multiset"
begin

section \<open>Python values, exceptions and string primitives\<close>

text \<open>
  The scripts under \<open>src/scripts\<close> are Python. Exceptions are values of the type
  \<open>exn\<close>; a computation that may raise returns \<open>exn + 'a\<close> with \<open>Inl\<close> the
  exception. Strings are lists of characters, one \<open>char\<close> per code point below 256.
\<close>

datatype exn =
    FileNotFoundError string
  | PermissionError string
  | OSError string
  | UnicodeDecodeError
  | DatabaseError string
  | IndexError
  | KeyError string

text \<open>
  The Python values that reach a dataset cell: \<open>None\<close>, and what the \<open>sqlite3\<close>
  module hands out for a stored value (\<open>int\<close>, \<open>float\<close>, \<open>str\<close>, \<open>bytes\<close>).
\<close>

datatype pyval = PyNone | PyInt int | PyFloat real | PyStr string | PyBytes string

text \<open>\<open>sub in s\<close> on Python strings: \<open>sub\<close> occurs in \<open>s\<close> as a contiguous run.\<close>

fun py_startswith :: "string \<Rightarrow> string \<Rightarrow> bool" where
  "py_startswith s [] = True"
| "py_startswith [] (p # ps) = False"
| "py_startswith (c # cs) (p # ps) = (c = p \<and> py_startswith cs ps)"

fun py_in :: "string \<Rightarrow> string \<Rightarrow> bool" where
  "py_in sub [] = (sub = [])"
| "py_in sub (c # cs) = (py_startswith (c # cs) sub \<or> py_in sub cs)"

text \<open>\<open>str.isspace\<close> on the code points below 256, and \<open>str.strip()\<close>.\<close>

definition py_isspace :: "char \<Rightarrow> bool" where
  "py_isspace c = (of_char c \<in> {9, 10, 11, 12, 13, 28, 29, 30, 31, 32, 133, 160 :: nat})"

definition py_strip :: "string \<Rightarrow> string" where
  "py_strip s = rev (dropWhile py_isspace (rev (dropWhile py_isspace s)))"

text \<open>
  \<open>s.split(sep)\<close> for a one-character separator: a character other than the
  separator extends the first piece of the rest. The result is never the empty list,
  so the second branch of the \<open>case\<close> is never taken.
\<close>

fun py_split :: "char \<Rightarrow> string \<Rightarrow> string list" where
  "py_split sep [] = [[]]"
| "py_split sep (c # cs) =
     (if c = sep then [] # py_split sep cs
      else (case py_split sep cs of
              piece # pieces \<Rightarrow> (c # piece) # pieces
            | [] \<Rightarrow> [[c]]))"

text \<open>\<open>xs[-1]\<close>: raises IndexError on the empty list.\<close>

definition py_last :: "'a list \<Rightarrow> exn + 'a" where
  "py_last xs = (if xs = [] then Inl IndexError else Inr (last xs))"

text \<open>\<open>s.rfind(c)\<close>: the highest index of \<open>c\<close> in \<open>s\<close>, or \<open>-1\<close>.\<close>

definition py_rfind :: "char \<Rightarrow> string \<Rightarrow> int" where
  "py_rfind c s =
     (if c \<in> set s then int (length s) - 1 - int (length (takeWhile (\<lambda>x. x \<noteq> c) (rev s)))
      else -1)"

text \<open>
  \<open>pathlib.Path(s).name\<close> on POSIX: the last component of \<open>s\<close> after dropping empty
  and \<open>.\<close> components, or the empty string when none is left. \<open>Path(s).stem\<close> is the
  name without its last suffix.
\<close>

definition path_name :: "string \<Rightarrow> string" where
  "path_name s =
     (let comps = filter (\<lambda>x. x \<noteq> [] \<and> x \<noteq> ''.'') (py_split CHR ''/'' s)
      in if comps = [] then [] else last comps)"

definition path_stem :: "string \<Rightarrow> string" where
  "path_stem s =
     (let name = path_name s; i = py_rfind CHR ''.'' name
      in if 0 < i \<and> i < int (length name) - 1 then take (nat i) name else name)"

section \<open>Run directories (extract_klee_features.py)\<close>

definition KLEE_OUT_PREFIX :: string where
  "KLEE_OUT_PREFIX = ''klee-out-''"

definition FEATURE_COLUMNS :: "string list" where
  "FEATURE_COLUMNS =
     [''Instructions'', ''FullBranches'', ''PartialBranches'', ''NumBranches'',
      ''SolverQueries'', ''NumQueryConstructs'', ''CoveredInstructions'',
      ''UncoveredInstructions'', ''UserTime'', ''Allocations'', ''ExternalCalls'']"

text \<open>
  The statistics store \<open>run.stats\<close> as the script queries it. Every call on the
  connection may raise: \<open>db_connect\<close> is the exception of \<open>sqlite3.connect\<close> if any,
  \<open>db_tables\<close> the answer to the \<open>sqlite_master\<close> query, \<open>db_columns\<close> the column
  names of \<open>PRAGMA table_info(stats)\<close>, \<open>db_first_row\<close> the answer to
  \<open>SELECT ... FROM stats LIMIT 1\<close>: an exception, no row, or the first row as a
  function from column name to the Python value of the cell (\<open>PyNone\<close> for NULL;
  SQLite types values, not columns, so a cell may hold any of the other values).
\<close>

record sqlite_db =
  db_connect :: "exn option"
  db_tables :: "exn + string list"
  db_columns :: "exn + string list"
  db_first_row :: "exn + (string \<Rightarrow> pyval) option"

text \<open>
  What \<open>Path.exists()\<close> says of a path. It returns \<open>False\<close> (\<open>Missing\<close>) or
  \<open>True\<close> (\<open>Present\<close>, with what the file then gives), or it raises: \<open>exists\<close>
  swallows only the errors of a missing path and re-raises every other \<open>OSError\<close>,
  such as the PermissionError of a directory that may not be searched.
\<close>

datatype 'a path_state = ExistsRaises exn | Missing | Present 'a

text \<open>
  An entry of the results root. For \<open>info\<close>, \<open>Present (Inl e)\<close> says that
  \<open>open\<close> or \<open>readline\<close> raises \<open>e\<close> and \<open>Present (Inr l)\<close> that \<open>readline\<close>
  returns \<open>l\<close>; for \<open>warnings.txt\<close> likewise with the lines of the file.
\<close>

record run_dir =
  dir_name :: string
  is_dir :: bool
  info_file :: "(exn + string) path_state"
  stats_file :: "sqlite_db path_state"
  warnings_file :: "(exn + string list) path_state"

subsection \<open>Label inference and the metadata reader\<close>

text \<open>Lines 94-99 of \<open>extract_info_and_label\<close>: the label of a function name.\<close>

definition label_of_name :: "string \<Rightarrow> int" where
  "label_of_name function_name =
     (if py_in ''_bad'' function_name then 1
      else if py_in ''_good'' function_name then 0
      else -1)"

text \<open>
  The body of the \<open>try\<close> block: everything after \<open>readline\<close>. An exception raised
  before \<open>function_name\<close> is assigned leaves the defaults in place. The test
  \<open>info_file.exists()\<close> of line 78 stands before the \<open>try\<close>: what it raises leaves
  the function.
\<close>

definition parse_first_line :: "string \<Rightarrow> exn + string" where
  "parse_first_line first_line =
     (case py_last (py_split CHR '' '' (py_strip first_line)) of
        Inl e \<Rightarrow> Inl e
      | Inr bitcode_path \<Rightarrow> Inr (path_stem bitcode_path))"

definition extract_info_and_label :: "run_dir \<Rightarrow> exn + string \<times> int" where
  "extract_info_and_label klee_out_dir =
     (case info_file klee_out_dir of
        ExistsRaises e \<Rightarrow> Inl e
      | Missing \<Rightarrow> Inr (''unknown'', -1)
      | Present (Inl e) \<Rightarrow> Inr (''unknown'', -1)
      | Present (Inr first_line) \<Rightarrow>
          (case parse_first_line first_line of
             Inl e \<Rightarrow> Inr (''unknown'', -1)
           | Inr function_name \<Rightarrow> Inr (function_name, label_of_name function_name)))"

subsection \<open>The metric extractor\<close>

text \<open>The \<open>stats\<close> dictionary is a map from column name to value.\<close>

definition init_stats :: "string \<rightharpoonup> pyval" where
  "init_stats = map_of (map (\<lambda>key. (key, PyInt 0)) FEATURE_COLUMNS)"

text \<open>
  Lines 46-47, the loop over \<open>enumerate(selected)\<close>. The dictionary is updated in
  place, so the function returns the dictionary as the loop leaves it together with
  the exception that stopped it, if any (\<open>row[i]\<close> raises IndexError out of range).
\<close>

fun assign_row ::
  "(string \<rightharpoonup> pyval) \<Rightarrow> (nat \<times> string) list \<Rightarrow> pyval list \<Rightarrow> (string \<rightharpoonup> pyval) \<times> exn option"
where
  "assign_row stats [] row = (stats, None)"
| "assign_row stats ((i, col) # rest) row =
     (if i < length row
      then assign_row (stats(col \<mapsto> (if row ! i \<noteq> PyNone then row ! i else PyInt 0))) rest row
      else (stats, Some IndexError))"

definition py_enumerate :: "'a list \<Rightarrow> (nat \<times> 'a) list" where
  "py_enumerate xs = zip [0..<length xs] xs"

text \<open>
  Lines 33-48, the body of the first \<open>try\<close>: the dictionary afterwards and the
  exception caught by the \<open>except\<close> branch, if any. \<open>conn.close()\<close> does not raise.
\<close>

definition read_stats ::
  "sqlite_db \<Rightarrow> (string \<rightharpoonup> pyval) \<Rightarrow> (string \<rightharpoonup> pyval) \<times> exn option"
where
  "read_stats db stats =
     (case db_connect db of
        Some e \<Rightarrow> (stats, Some e)
      | None \<Rightarrow>
         (case db_tables db of
            Inl e \<Rightarrow> (stats, Some e)
          | Inr tables \<Rightarrow>
              if ''stats'' \<in> set tables then
                (case db_columns db of
                   Inl e \<Rightarrow> (stats, Some e)
                 | Inr available_columns \<Rightarrow>
                     (let selected = filter (\<lambda>col. col \<in> set available_columns) FEATURE_COLUMNS
                      in if selected \<noteq> [] then
                           (case db_first_row db of
                              Inl e \<Rightarrow> (stats, Some e)
                            | Inr None \<Rightarrow> (stats, None)
                            | Inr (Some r) \<Rightarrow>
                                (let row = map r selected
                                 in if row \<noteq> [] then assign_row stats (py_enumerate selected) row
                                    else (stats, None)))
                         else (stats, None)))
              else (stats, None)))"

text \<open>
  Lines 31-50: the dictionary after the first \<open>if\<close>. The test \<open>stats_file.exists()\<close>
  of line 31 stands before the \<open>try\<close>: what it raises leaves the function.
\<close>

definition stats_after :: "run_dir \<Rightarrow> exn + (string \<rightharpoonup> pyval)" where
  "stats_after klee_out_dir =
     (case stats_file klee_out_dir of
        ExistsRaises e \<Rightarrow> Inl e
      | Missing \<Rightarrow> Inr init_stats
      | Present db \<Rightarrow> Inr (fst (read_stats db init_stats)))"

text \<open>
  Lines 52-57: the number of warning lines; 0 when the log is missing or unreadable.
  The test \<open>warnings_file.exists()\<close> of line 52 stands before the \<open>try\<close> as well.
\<close>

definition count_warnings :: "run_dir \<Rightarrow> exn + nat" where
  "count_warnings klee_out_dir =
     (case warnings_file klee_out_dir of
        ExistsRaises e \<Rightarrow> Inl e
      | Missing \<Rightarrow> Inr 0
      | Present (Inl e) \<Rightarrow> Inr 0
      | Present (Inr lines) \<Rightarrow>
          Inr (length (filter (\<lambda>line. py_startswith (py_strip line) ''KLEE: WARNING'') lines)))"

text \<open>Line 59: \<open>[stats[key] for key in FEATURE_COLUMNS]\<close>; a missing key raises KeyError.\<close>

fun get_items :: "(string \<rightharpoonup> pyval) \<Rightarrow> string list \<Rightarrow> exn + pyval list" where
  "get_items stats [] = Inr []"
| "get_items stats (key # keys) =
     (case stats key of
        None \<Rightarrow> Inl (KeyError key)
      | Some v \<Rightarrow> (case get_items stats keys of Inl e \<Rightarrow> Inl e | Inr vs \<Rightarrow> Inr (v # vs)))"

text \<open>\<open>extract_stats\<close>, in the order of its statements.\<close>

definition extract_stats :: "run_dir \<Rightarrow> exn + pyval list" where
  "extract_stats klee_out_dir =
     (case stats_after klee_out_dir of
        Inl e \<Rightarrow> Inl e
      | Inr stats \<Rightarrow>
          (case count_warnings klee_out_dir of
             Inl e \<Rightarrow> Inl e
           | Inr warnings_count \<Rightarrow>
               (case get_items stats FEATURE_COLUMNS of
                  Inl e \<Rightarrow> Inl e
                | Inr vs \<Rightarrow> Inr (vs @ [PyInt (int warnings_count)]))))"

subsection \<open>Enumeration and assembly\<close>

text \<open>
  The file system the script sees: the listing of \<open>results\<close> in the order
  \<open>iterdir\<close> yields it (\<open>None\<close> when the directory does not exist) and the
  exception of opening the output file for writing, if any.
\<close>

record filesystem =
  results_root :: "run_dir list option"
  output_open :: "exn option"

definition RESULTS_DIR :: string where
  "RESULTS_DIR = ''results''"

definition collect_klee_outputs :: "filesystem \<Rightarrow> exn + run_dir list" where
  "collect_klee_outputs fs =
     (case results_root fs of
        None \<Rightarrow> Inl (FileNotFoundError RESULTS_DIR)
      | Some entries \<Rightarrow>
          Inr (sort_key dir_name
                 (filter (\<lambda>d. is_dir d \<and> py_startswith (dir_name d) KLEE_OUT_PREFIX) entries)))"

definition header :: "pyval list" where
  "header = map PyStr ([''klee_dir_name'', ''function_name''] @ FEATURE_COLUMNS @ [''warnings'', ''label''])"

text \<open>
  Lines 116-124: the rows appended to \<open>features\<close>, in the order of \<open>out_dirs\<close>.
  Nothing in the loop catches an exception: the first one raised ends it.
\<close>

fun append_rows :: "run_dir list \<Rightarrow> exn + pyval list list" where
  "append_rows [] = Inr []"
| "append_rows (klee_dir # rest) =
     (case extract_info_and_label klee_dir of
        Inl e \<Rightarrow> Inl e
      | Inr (function_name, label) \<Rightarrow>
          (case extract_stats klee_dir of
             Inl e \<Rightarrow> Inl e
           | Inr stat_values \<Rightarrow>
               (case append_rows rest of
                  Inl e \<Rightarrow> Inl e
                | Inr rows \<Rightarrow>
                    Inr ((PyStr (dir_name klee_dir) # PyStr function_name # stat_values @ [PyInt label])
                         # rows))))"

text \<open>
  \<open>main\<close>: an uncaught exception, \<open>NoDirs\<close> for the early return of line 110, or
  the content written to the output file. \<open>writerows\<close> is \<open>csv.writer(...).writerows\<close>,
  library code: a function from the table it is given to the file content.
\<close>

datatype 'f outcome = Raised exn | NoDirs | Written 'f

definition main :: "(pyval list list \<Rightarrow> 'f) \<Rightarrow> filesystem \<Rightarrow> 'f outcome" where
  "main writerows fs =
     (case collect_klee_outputs fs of
        Inl e \<Rightarrow> Raised e
      | Inr out_dirs \<Rightarrow>
          if out_dirs = [] then NoDirs
          else (case append_rows out_dirs of
                  Inl e \<Rightarrow> Raised e
                | Inr rows \<Rightarrow>
                    (case output_open fs of
                       Some e \<Rightarrow> Raised e
                     | None \<Rightarrow> Written (writerows (header # rows)))))"

section \<open>The trainer (train_model.py)\<close>

text \<open>
  A row of the loaded data frame: the feature columns and the label. The trainer is
  a script; its run is the list of what it does, in order. \<open>train_test_split\<close> and
  the classifier are library code: the split is a parameter and may raise.
\<close>

record 'x csv_row =
  row_features :: 'x
  row_label :: int

datatype 'x event =
    Print string
  | PrintShape string nat
  | PrintValueCounts "int list"
  | TrainTestSplit "'x csv_row list"
  | Fit "'x csv_row list"
  | Predict "'x csv_row list"
  | PrintReport "'x csv_row list"
  | Uncaught exn
  | Exit

text \<open>
  \<open>PrintShape s n\<close> is the print of \<open>s\<close> followed by a shape or size with \<open>n\<close> rows,
  \<open>PrintValueCounts labels\<close> the print of \<open>value_counts()\<close> of the label column
  \<open>labels\<close>, \<open>PrintReport test\<close> the prints of the accuracy and of the classification
  report on the held-out rows.
\<close>

definition train_model ::
  "('x csv_row list \<Rightarrow> exn + 'x csv_row list \<times> 'x csv_row list) \<Rightarrow> 'x csv_row list option \<Rightarrow> 'x event list"
where
  "train_model train_test_split csv =
     (case csv of
        None \<Rightarrow>
          [Print '' ERROR: Could not find the file at results/klee_features_rich_gurman.csv'',
           Print ''Please make sure the script is in your 'SS PROJECT' directory.'',
           Exit]
      | Some df \<Rightarrow>
          (let df_cleaned = filter (\<lambda>r. row_label r \<noteq> -1) df
           in [Print '' Successfully loaded the dataset.'',
               PrintShape ''Original shape of the dataset: '' (length df)] @
              (if df_cleaned = [] then
                 [Print '' ERROR: After cleaning, no data with labels 0 or 1 was found.'',
                  Print ''Please check your feature extraction script and CSV file.'',
                  Exit]
               else
                 [PrintShape ''Shape after removing unknown labels (-1): '' (length df_cleaned),
                  Print (CHR 0x0A # ''Value counts of labels:''),
                  PrintValueCounts (map row_label df_cleaned),
                  TrainTestSplit df_cleaned] @
                 (case train_test_split df_cleaned of
                    Inl e \<Rightarrow> [Uncaught e]
                  | Inr (train, test) \<Rightarrow>
                      [PrintShape (CHR 0x0A # ''Training set size: '') (length train),
                       PrintShape ''Testing set size: '' (length test),
                       Fit train,
                       Print (CHR 0x0A # '' Model training complete.''),
                       Predict test,
                       Print (CHR 0x0A # ''--- MODEL EVALUATION RESULTS ---''),
                       PrintReport test]))))"

section \<open>Derived notions used in the statements\<close>

text \<open>The value the loop of lines 46-47 stores for a cell: NULL becomes 0.\<close>

definition stored_value :: "pyval \<Rightarrow> pyval" where
  "stored_value v = (if v \<noteq> PyNone then v else PyInt 0)"


text \<open>The three existence tests of a run directory return.\<close>

fun returns :: "'a path_state \<Rightarrow> bool" where
  "returns (ExistsRaises e) = False"
| "returns Missing = True"
| "returns (Present x) = True"

definition exists_returns :: "run_dir \<Rightarrow> bool" where
  "exists_returns d = (returns (info_file d) \<and> returns (stats_file d) \<and> returns (warnings_file d))"

text \<open>
  What the extractors give when the existence tests return: the dictionary, the
  warning count, the identifier with its label, and the row \<open>main\<close> appends.
\<close>

definition stats_dict :: "run_dir \<Rightarrow> string \<rightharpoonup> pyval" where
  "stats_dict d = (case stats_file d of Present db \<Rightarrow> fst (read_stats db init_stats) | _ \<Rightarrow> init_stats)"

definition metric_values :: "run_dir \<Rightarrow> pyval list" where
  "metric_values d = map (\<lambda>key. the (stats_dict d key)) FEATURE_COLUMNS"

definition warning_count :: "run_dir \<Rightarrow> nat" where
  "warning_count d = (case count_warnings d of Inr n \<Rightarrow> n | Inl e \<Rightarrow> 0)"

definition identifier_of_line :: "string \<Rightarrow> string" where
  "identifier_of_line first_line = path_stem (last (py_split CHR '' '' (py_strip first_line)))"

definition name_and_label :: "run_dir \<Rightarrow> string \<times> int" where
  "name_and_label d =
     (case info_file d of
        Present (Inr first_line) \<Rightarrow>
          (identifier_of_line first_line, label_of_name (identifier_of_line first_line))
      | _ \<Rightarrow> (''unknown'', -1))"

definition row_of :: "run_dir \<Rightarrow> pyval list" where
  "row_of d =
     PyStr (dir_name d) # PyStr (fst (name_and_label d)) #
     (metric_values d @ [PyInt (int (warning_count d))]) @ [PyInt (snd (name_and_label d))]"

text \<open>Example run directories and stores for the concrete instances below.\<close>

definition example_run ::
  "string \<Rightarrow> (exn + string) path_state \<Rightarrow> sqlite_db path_state \<Rightarrow> run_dir"
where
  "example_run name info db =
     \<lparr>dir_name = name, is_dir = True, info_file = info, stats_file = db, warnings_file = Missing\<rparr>"



definition corrupt_store :: sqlite_db where
  "corrupt_store =
     \<lparr>db_connect = None, db_tables = Inl (DatabaseError ''file is not a database''),
      db_columns = Inr [], db_first_row = Inr None\<rparr>"

text \<open>
  A run directory that may not be searched: each existence test inside it raises
  PermissionError, naming the path.
\<close>

definition unsearchable_run :: "string \<Rightarrow> run_dir" where
  "unsearchable_run name =
     \<lparr>dir_name = name, is_dir = True,
      info_file = ExistsRaises (PermissionError (''results/'' @ name @ ''/info'')),
      stats_file = ExistsRaises (PermissionError (''results/'' @ name @ ''/run.stats'')),
      warnings_file = ExistsRaises (PermissionError (''results/'' @ name @ ''/warnings.txt''))\<rparr>"

section \<open>Label inference and the metadata reader: properties\<close>


lemma py_startswith_iff: "py_startswith s p \<longleftrightarrow> (\<exists>t. s = p @ t)"
  by (induction s p rule: py_startswith.induct) auto

lemma py_in_iff: "py_in sub s \<longleftrightarrow> (\<exists>p t. s = p @ sub @ t)"
proof (induction s)
  case Nil
  show ?case by simp
next
  case (Cons c cs)
  have "(\<exists>p t. c # cs = p @ sub @ t) \<longleftrightarrow> (\<exists>t. c # cs = sub @ t) \<or> (\<exists>p t. cs = p @ sub @ t)"
  proof
    assume "\<exists>p t. c # cs = p @ sub @ t"
    then obtain p t where eq: "c # cs = p @ sub @ t" by blast
    show "(\<exists>t. c # cs = sub @ t) \<or> (\<exists>p t. cs = p @ sub @ t)"
    proof (cases p)
      case Nil
      with eq show ?thesis by auto
    next
      case (Cons a p')
      with eq have "cs = p' @ sub @ t" by simp
      then show ?thesis by blast
    qed
  next
    assume "(\<exists>t. c # cs = sub @ t) \<or> (\<exists>p t. cs = p @ sub @ t)"
    then show "\<exists>p t. c # cs = p @ sub @ t"
    proof
      assume "\<exists>t. c # cs = sub @ t"
      then obtain t where "c # cs = [] @ sub @ t" by auto
      then show ?thesis by blast
    next
      assume "\<exists>p t. cs = p @ sub @ t"
      then obtain p t where "c # cs = (c # p) @ sub @ t" by auto
      then show ?thesis by blast
    qed
  qed
  with Cons show ?case by (simp add: py_startswith_iff)
qed

lemma py_split_nonempty: "py_split sep s \<noteq> []"
  by (induction s) (auto split: list.splits)

lemma parse_first_line_total: "parse_first_line l = Inr (identifier_of_line l)"
  by (simp add: parse_first_line_def py_last_def py_split_nonempty identifier_of_line_def)

text \<open>
  Claim C1. The label of an identifier is 1 (Vulnerable) when the marker \<open>_bad\<close>
  occurs in it, otherwise 0 (NotVulnerable) when the marker \<open>_good\<close> occurs in it,
  otherwise -1 (Unknown); with both markers present the label is 1.
\<close>

theorem label_of_name_spec:
  "label_of_name name =
     (if (\<exists>p t. name = p @ ''_bad'' @ t) then 1
      else if (\<exists>p t. name = p @ ''_good'' @ t) then 0
      else -1)"
  unfolding label_of_name_def py_in_iff by (rule refl)

theorem label_of_name_spec_witness:
  "(\<exists>p t. ''x_good_bad'' = p @ ''_bad'' @ t) \<and> label_of_name ''x_good_bad'' = 1"
proof -
  have ex: "\<exists>p t. ''x_good_bad'' = p @ ''_bad'' @ t"
    by (rule exI [of _ "''x_good''"], rule exI [of _ "''''"]) simp
  with label_of_name_spec [of "''x_good_bad''"] show ?thesis by simp
qed


lemma label_unknown: "label_of_name ''unknown'' = -1"
  by code_simp

lemma label_empty: "label_of_name [] = -1"
  by code_simp

lemma py_split_no_sep: "sep \<notin> set s \<Longrightarrow> py_split sep s = [s]"
  by (induction s) auto

lemma length_py_split: "length (py_split sep s) = Suc (length (filter (\<lambda>c. c = sep) s))"
proof (induction s)
  case Nil
  show ?case by simp
next
  case (Cons c cs)
  then show ?case
    using py_split_nonempty [of sep cs] by (auto split: list.splits)
qed

lemma last_py_split_append:
  assumes "sep \<notin> set t"
  shows "last (py_split sep (p @ sep # t)) = t"
proof (induction p)
  case Nil
  show ?case by (simp add: py_split_no_sep [OF assms])
next
  case (Cons c p)
  have len: "2 \<le> length (py_split sep (p @ sep # t))"
    by (simp add: length_py_split)
  show ?case
  proof (cases "c = sep")
    case True
    with Cons py_split_nonempty [of sep "p @ sep # t"] show ?thesis by simp
  next
    case False
    obtain piece pieces where sp: "py_split sep (p @ sep # t) = piece # pieces"
      using py_split_nonempty [of sep "p @ sep # t"] by (cases "py_split sep (p @ sep # t)") auto
    with len have "pieces \<noteq> []" by auto
    with sp Cons False show ?thesis by simp
  qed
qed

lemma last_filter:
  "xs \<noteq> [] \<Longrightarrow> P (last xs) \<Longrightarrow> filter P xs \<noteq> [] \<and> last (filter P xs) = last xs"
proof (induction xs)
  case Nil
  then show ?case by simp
next
  case (Cons a xs)
  show ?case
  proof (cases "xs = []")
    case True
    with Cons.prems show ?thesis by simp
  next
    case False
    with Cons.prems have "P (last xs)" by simp
    from Cons.IH [OF False this] False show ?thesis by simp
  qed
qed

lemma path_name_last_component:
  assumes "CHR ''/'' \<notin> set name" and "name \<noteq> []" and "name \<noteq> ''.''"
  shows "path_name (dir @ CHR ''/'' # name) = name"
proof -
  let ?xs = "py_split CHR ''/'' (dir @ CHR ''/'' # name)"
  have l: "last ?xs = name" by (rule last_py_split_append [OF assms(1)])
  have "?xs \<noteq> []" by (rule py_split_nonempty)
  from last_filter [of ?xs "\<lambda>x. x \<noteq> [] \<and> x \<noteq> ''.''", OF this] l assms(2,3)
  show ?thesis by (simp add: path_name_def Let_def)
qed

lemma py_rfind_last:
  assumes "c \<notin> set ext"
  shows "py_rfind c (base @ c # ext) = int (length base)"
proof -
  have "takeWhile (\<lambda>x. x \<noteq> c) (rev ext @ c # rev base) = rev ext"
    using assms by (auto simp add: takeWhile_tail)
  then show ?thesis by (simp add: py_rfind_def)
qed

lemma path_stem_strips_suffix:
  assumes "CHR ''/'' \<notin> set (base @ ext)" and "CHR ''.'' \<notin> set ext"
    and "base \<noteq> []" and "ext \<noteq> []"
  shows "path_stem (dir @ CHR ''/'' # base @ CHR ''.'' # ext) = base"
proof -
  have n: "path_name (dir @ CHR ''/'' # base @ CHR ''.'' # ext) = base @ CHR ''.'' # ext"
    using assms(1,3) by (intro path_name_last_component) (auto simp add: append_eq_Cons_conv)
  have i: "py_rfind CHR ''.'' (base @ CHR ''.'' # ext) = int (length base)"
    by (rule py_rfind_last [OF assms(2)])
  show ?thesis
    using assms(3,4) by (simp add: path_stem_def n i Let_def)
qed

lemma identifier_of_command_line:
  assumes "py_strip l = pre @ CHR '' '' # dir @ CHR ''/'' # base @ CHR ''.'' # ext"
    and "CHR '' '' \<notin> set (dir @ base @ ext)"
    and "CHR ''/'' \<notin> set (base @ ext)" and "CHR ''.'' \<notin> set ext"
    and "base \<noteq> []" and "ext \<noteq> []"
  shows "identifier_of_line l = base"
proof -
  have "CHR '' '' \<notin> set (dir @ CHR ''/'' # base @ CHR ''.'' # ext)"
    using assms(2) by auto
  from last_py_split_append [OF this, of pre]
  have "last (py_split CHR '' '' (py_strip l)) = dir @ CHR ''/'' # base @ CHR ''.'' # ext"
    by (simp add: assms(1))
  then show ?thesis
    by (simp add: identifier_of_line_def path_stem_strips_suffix [OF assms(3-6)])
qed

lemma identifier_of_blank_line:
  assumes "\<forall>c\<in>set l. py_isspace c"
  shows "identifier_of_line l = []"
proof -
  have d: "dropWhile py_isspace l = []" using assms by (simp add: dropWhile_eq_Nil_conv)
  have "py_strip l = []" unfolding py_strip_def d by simp
  moreover have "path_stem (last (py_split CHR '' '' [])) = []" by code_simp
  ultimately show ?thesis by (simp add: identifier_of_line_def)
qed


text \<open>
  Claim C4, as the code has it. When the existence test reports \<open>info\<close> missing, or
  opening or reading the file raises, the reader returns the placeholder \<open>unknown\<close>
  with label -1. A first line that was read always parses, without raising: the
  identifier is the stem of the last space-separated token of the stripped line and
  the label is inferred from it. For a line that ends with a path \<open>dir/base.ext\<close>
  the identifier is \<open>base\<close>; for an empty or blank line it is the empty string, not
  the placeholder. The placeholder and the empty identifier have label -1.
\<close>

theorem metadata_reader_amended:
  "(info_file d = Missing \<or> (\<exists>e. info_file d = Present (Inl e))
      \<longrightarrow> extract_info_and_label d = Inr (''unknown'', - 1))
   \<and> (\<forall>l. info_file d = Present (Inr l)
      \<longrightarrow> extract_info_and_label d
            = Inr (identifier_of_line l, label_of_name (identifier_of_line l)))
   \<and> (\<forall>l pre dir base ext.
         py_strip l = pre @ CHR '' '' # dir @ CHR ''/'' # base @ CHR ''.'' # ext
         \<and> CHR '' '' \<notin> set (dir @ base @ ext) \<and> CHR ''/'' \<notin> set (base @ ext)
         \<and> CHR ''.'' \<notin> set ext \<and> base \<noteq> [] \<and> ext \<noteq> []
      \<longrightarrow> identifier_of_line l = base)
   \<and> (\<forall>l. (\<forall>c\<in>set l. py_isspace c) \<longrightarrow> identifier_of_line l = [])
   \<and> label_of_name ''unknown'' = - 1 \<and> label_of_name [] = - 1"
proof -
  have a: "info_file d = Missing \<or> (\<exists>e. info_file d = Present (Inl e))
      \<longrightarrow> extract_info_and_label d = Inr (''unknown'', - 1)"
    by (auto simp add: extract_info_and_label_def)
  have b: "\<forall>l. info_file d = Present (Inr l)
      \<longrightarrow> extract_info_and_label d
            = Inr (identifier_of_line l, label_of_name (identifier_of_line l))"
    by (simp add: extract_info_and_label_def parse_first_line_total)
  have c: "\<forall>l pre dir base ext.
         py_strip l = pre @ CHR '' '' # dir @ CHR ''/'' # base @ CHR ''.'' # ext
         \<and> CHR '' '' \<notin> set (dir @ base @ ext) \<and> CHR ''/'' \<notin> set (base @ ext)
         \<and> CHR ''.'' \<notin> set ext \<and> base \<noteq> [] \<and> ext \<noteq> []
      \<longrightarrow> identifier_of_line l = base"
    using identifier_of_command_line by blast
  have e: "\<forall>l. (\<forall>c\<in>set l. py_isspace c) \<longrightarrow> identifier_of_line l = []"
    using identifier_of_blank_line by blast
  from a b c e label_unknown label_empty show ?thesis by blast
qed

theorem metadata_reader_amended_witness:
  "extract_info_and_label (example_run ''klee-out-0'' Missing Missing) = Inr (''unknown'', - 1)
   \<and> extract_info_and_label
       (example_run ''klee-out-1''
          (Present (Inr ''klee --libc=uclibc ../results/CWE190_x_good.bc'')) Missing)
     = Inr (''CWE190_x_good'', 0)
   \<and> extract_info_and_label (example_run ''klee-out-2'' (Present (Inr ''  '')) Missing)
     = Inr ([], - 1)"
proof -
  let ?l = "''klee --libc=uclibc ../results/CWE190_x_good.bc''"
  have s: "py_strip ?l = ''klee --libc=uclibc'' @ CHR '' '' # ''../results'' @ CHR ''/'' #
             ''CWE190_x_good'' @ CHR ''.'' # ''bc''"
    by code_simp
  have g: "label_of_name ''CWE190_x_good'' = 0" by code_simp
  note c = metadata_reader_amended [of "example_run ''klee-out-0'' Missing Missing",
      THEN conjunct2, THEN conjunct2, THEN conjunct1, rule_format]
  have i1: "identifier_of_line ?l = ''CWE190_x_good''"
    by (rule c [of ?l "''klee --libc=uclibc''" "''../results''" _ "''bc''"]) (simp add: s)
  note b = metadata_reader_amended [of "example_run ''klee-out-0'' Missing Missing",
      THEN conjunct2, THEN conjunct2, THEN conjunct2, THEN conjunct1, rule_format]
  have i2: "identifier_of_line ''  '' = []"
    by (rule b) (simp add: py_isspace_def)
  show ?thesis
    using metadata_reader_amended [of "example_run ''klee-out-0'' Missing Missing"]
      metadata_reader_amended [of "example_run ''klee-out-1'' (Present (Inr ?l)) Missing"]
      metadata_reader_amended [of "example_run ''klee-out-2'' (Present (Inr ''  '')) Missing"]
    by (simp add: example_run_def i1 i2 g)
qed

text \<open>
  Claim C4 as stated fails twice. On empty content the reader does not return the
  placeholder identifier: it returns the empty string. And the reader does raise past
  its boundary when the existence test of line 78 raises, as it does in a run
  directory that may not be searched.
\<close>

theorem metadata_reader_counterexample:
  "extract_info_and_label (example_run ''klee-out-1'' (Present (Inr [])) Missing) = Inr ([], - 1)
   \<and> extract_info_and_label (example_run ''klee-out-1'' (Present (Inr [])) Missing)
       \<noteq> Inr (''unknown'', - 1)
   \<and> extract_info_and_label (unsearchable_run ''klee-out-2'')
       = Inl (PermissionError ''results/klee-out-2/info'')"
  by code_simp


text \<open>
  The example of the specification: identifiers \<open>CWE190_x_bad\<close>,
  \<open>CWE190_x_good\<close>, \<open>CWE121_y_bad\<close>, \<open>unknown_z\<close> and a run without
  metadata get the labels 1, 0, 1, -1, -1.
\<close>

lemma example_labels:
  "map extract_info_and_label
     [example_run ''klee-out-0'' (Present (Inr ''klee --libc=uclibc ../results/CWE190_x_bad.bc'')) Missing,
      example_run ''klee-out-1'' (Present (Inr ''klee --libc=uclibc ../results/CWE190_x_good.bc'')) Missing,
      example_run ''klee-out-2'' (Present (Inr ''klee --libc=uclibc ../results/CWE121_y_bad.bc'')) Missing,
      example_run ''klee-out-3'' (Present (Inr ''klee --libc=uclibc ../results/unknown_z.bc'')) Missing,
      example_run ''klee-out-4'' Missing Missing]
   = [Inr (''CWE190_x_bad'', 1), Inr (''CWE190_x_good'', 0), Inr (''CWE121_y_bad'', 1),
      Inr (''unknown_z'', - 1), Inr (''unknown'', - 1)]"
  by code_simp

section \<open>The metric extractor: properties\<close>

lemma assign_row_result:
  assumes "\<And>i c. (i, c) \<in> set ics \<Longrightarrow> i < length row \<and> row ! i = f c"
  shows "assign_row stats ics row =
           (\<lambda>k. if k \<in> snd ` set ics then Some (stored_value (f k)) else stats k, None)"
  using assms
proof (induction ics arbitrary: stats)
  case Nil
  show ?case by simp
next
  case (Cons ic ics)
  obtain i c where ic: "ic = (i, c)" by (cases ic)
  have here: "i < length row" "row ! i = f c"
    using Cons.prems [of i c] ic by simp_all
  have rest: "\<And>j d. (j, d) \<in> set ics \<Longrightarrow> j < length row \<and> row ! j = f d"
    using Cons.prems by auto
  have step: "(if row ! i \<noteq> PyNone then row ! i else PyInt 0) = stored_value (f c)"
    by (simp only: here stored_value_def)
  have "assign_row stats (ic # ics) row = assign_row (stats(c \<mapsto> stored_value (f c))) ics row"
    unfolding ic using here(1) by (simp only: assign_row.simps step if_True)
  also have "\<dots> = (\<lambda>k. if k \<in> snd ` set ics then Some (stored_value (f k))
                        else (stats(c \<mapsto> stored_value (f c))) k, None)"
    by (rule Cons.IH [OF rest])
  also have "\<dots> = (\<lambda>k. if k \<in> snd ` set (ic # ics) then Some (stored_value (f k)) else stats k, None)"
    unfolding ic by (auto simp add: fun_eq_iff)
  finally show ?case .
qed

lemma py_enumerate_row:
  assumes "(i, c) \<in> set (py_enumerate sel)"
  shows "i < length (map g sel) \<and> map g sel ! i = g c"
proof -
  from assms obtain n where "n < length sel" "[0..<length sel] ! n = i" "sel ! n = c"
    unfolding py_enumerate_def by (auto simp add: in_set_zip)
  then show ?thesis by simp
qed

lemma snd_set_py_enumerate: "snd ` set (py_enumerate sel) = set sel"
proof -
  have "map snd (zip [0..<length sel] sel) = sel" by (simp add: map_snd_zip)
  then have "set (map snd (py_enumerate sel)) = set sel" by (simp add: py_enumerate_def)
  then show ?thesis by simp
qed

lemma assign_selected:
  "assign_row stats (py_enumerate sel) (map r sel) =
     (\<lambda>k. if k \<in> set sel then Some (stored_value (r k)) else stats k, None)"
  using assign_row_result [of "py_enumerate sel" "map r sel" r stats]
    py_enumerate_row [of _ _ sel r]
  by (simp add: snd_set_py_enumerate)

lemma stored_value_not_none: "stored_value v \<noteq> PyNone"
  by (simp add: stored_value_def)

lemma read_stats_raises:
  "snd (read_stats db stats) = Some e \<Longrightarrow> fst (read_stats db stats) = stats"
  by (auto simp add: read_stats_def assign_selected Let_def
      split: option.splits sum.splits if_splits)

lemma read_stats_value:
  "fst (read_stats db stats) k = stats k
   \<or> (\<exists>v. fst (read_stats db stats) k = Some v \<and> v \<noteq> PyNone)"
  by (auto simp add: read_stats_def assign_selected Let_def stored_value_not_none
      split: option.splits sum.splits if_splits)



lemma init_stats_feature: "key \<in> set FEATURE_COLUMNS \<Longrightarrow> init_stats key = Some (PyInt 0)"
  unfolding init_stats_def FEATURE_COLUMNS_def by auto

lemma stats_dict_present:
  assumes "key \<in> set FEATURE_COLUMNS"
  shows "\<exists>v. stats_dict d key = Some v \<and> v \<noteq> PyNone"
proof (cases "stats_file d")
  case (Present db)
  with read_stats_value [of db init_stats key] init_stats_feature [OF assms]
  show ?thesis by (auto simp add: stats_dict_def)
qed (simp_all add: stats_dict_def init_stats_feature [OF assms])

lemma get_items_present:
  "(\<And>key. key \<in> set keys \<Longrightarrow> stats key \<noteq> None)
     \<Longrightarrow> get_items stats keys = Inr (map (\<lambda>key. the (stats key)) keys)"
proof (induction keys)
  case Nil
  show ?case by simp
next
  case (Cons a keys)
  from Cons.prems [of a] obtain v where v: "stats a = Some v" by auto
  have "get_items stats keys = Inr (map (\<lambda>key. the (stats key)) keys)"
    by (rule Cons.IH) (simp add: Cons.prems)
  with v show ?case by simp
qed

lemma stats_after_returns:
  "returns (stats_file d) \<Longrightarrow> stats_after d = Inr (stats_dict d)"
  by (cases "stats_file d") (simp_all add: stats_after_def stats_dict_def)

lemma count_warnings_returns:
  "returns (warnings_file d) \<Longrightarrow> count_warnings d = Inr (warning_count d)"
  by (cases "warnings_file d") (auto simp add: count_warnings_def warning_count_def split: sum.splits)

lemma extract_stats_returns:
  assumes "returns (stats_file d)" and "returns (warnings_file d)"
  shows "extract_stats d = Inr (metric_values d @ [PyInt (int (warning_count d))])"
proof -
  have "get_items (stats_dict d) FEATURE_COLUMNS = Inr (metric_values d)"
    unfolding metric_values_def
    by (rule get_items_present) (use stats_dict_present in fastforce)
  then show ?thesis
    by (simp add: extract_stats_def stats_after_returns [OF assms(1)]
        count_warnings_returns [OF assms(2)])
qed



lemma length_metric_values: "length (metric_values d) = length FEATURE_COLUMNS"
  by (simp add: metric_values_def)

lemma metric_values_zero:
  assumes "stats_dict d = init_stats"
  shows "metric_values d = replicate (length FEATURE_COLUMNS) (PyInt 0)"
proof -
  have "map (\<lambda>key. the (init_stats key)) FEATURE_COLUMNS = map (\<lambda>key. PyInt 0) FEATURE_COLUMNS"
    by (rule map_cong) (simp_all add: init_stats_feature)
  then show ?thesis by (simp add: metric_values_def assms map_replicate_const)
qed

lemma name_and_label_returns:
  "returns (info_file d) \<Longrightarrow> extract_info_and_label d = Inr (name_and_label d)"
  by (cases "info_file d")
    (auto simp add: extract_info_and_label_def name_and_label_def parse_first_line_total
      split: sum.splits)

lemma append_rows_returns:
  "(\<And>d. d \<in> set ds \<Longrightarrow> exists_returns d) \<Longrightarrow> append_rows ds = Inr (map row_of ds)"
proof (induction ds)
  case Nil
  show ?case by simp
next
  case (Cons d ds)
  have d: "exists_returns d" by (rule Cons.prems) simp
  have "append_rows ds = Inr (map row_of ds)"
    by (rule Cons.IH) (simp add: Cons.prems)
  with d show ?case
    by (simp add: exists_returns_def name_and_label_returns extract_stats_returns row_of_def
        split: prod.splits)
qed


text \<open>
  Claim C3 is not what the code does in a run directory that may not be searched:
  the existence test of line 31 raises PermissionError before the \<open>try\<close>, and the
  extractor returns no vector at all.
\<close>

theorem metric_extractor_raises_in_unsearchable_run:
  "extract_stats (unsearchable_run ''klee-out-1'')
     = Inl (PermissionError ''results/klee-out-1/run.stats'')"
  by (simp add: extract_stats_def stats_after_def unsearchable_run_def)




section \<open>The assembler and the trainer: properties\<close>


text \<open>
  Claim C2 is not what the code does when one run directory may not be searched:
  the existence test of line 78 raises PermissionError inside the loop, nothing
  catches it, and \<open>main\<close> ends without writing a row for any directory.
\<close>

theorem unsearchable_run_aborts_batch:
  "main (\<lambda>table. table)
     \<lparr>results_root = Some [example_run ''klee-out-0'' Missing Missing,
                           unsearchable_run ''klee-out-1'',
                           example_run ''klee-out-2'' Missing Missing],
      output_open = None\<rparr>
   = Raised (PermissionError ''results/klee-out-1/info'')"
  by (simp add: main_def collect_klee_outputs_def example_run_def unsearchable_run_def
      KLEE_OUT_PREFIX_def extract_info_and_label_def extract_stats_def stats_after_def
      count_warnings_def init_stats_def FEATURE_COLUMNS_def)

text \<open>
  Claim C9, as the code has it. Where the existence tests of the run directories
  return, the loop appends one row per directory, each with as many cells as the
  header. For a directory whose \<open>info\<close> file is missing, or cannot be opened or
  read, the row carries the string \<open>unknown\<close> in the \<open>function_name\<close> column and -1
  in the \<open>label\<close> column. A first line that was read is always parsed: the column
  holds the identifier of that line, which for an empty or blank line is the empty
  string, with label -1.
\<close>

theorem placeholder_for_unreadable_metadata:
  assumes "\<forall>d\<in>set out_dirs. exists_returns d" and "i < length out_dirs"
  shows "\<exists>rows. append_rows out_dirs = Inr rows
           \<and> length rows = length out_dirs
           \<and> length (rows ! i) = length header
           \<and> header ! 1 = PyStr ''function_name'' \<and> header ! 14 = PyStr ''label''
           \<and> (info_file (out_dirs ! i) = Missing \<or> (\<exists>e. info_file (out_dirs ! i) = Present (Inl e))
                \<longrightarrow> rows ! i ! 1 = PyStr ''unknown'' \<and> rows ! i ! 14 = PyInt (- 1))
           \<and> (\<forall>l. info_file (out_dirs ! i) = Present (Inr l)
                \<longrightarrow> rows ! i ! 1 = PyStr (identifier_of_line l)
                    \<and> rows ! i ! 14 = PyInt (label_of_name (identifier_of_line l)))
           \<and> (\<forall>l. info_file (out_dirs ! i) = Present (Inr l) \<and> (\<forall>c\<in>set l. py_isspace c)
                \<longrightarrow> rows ! i ! 1 = PyStr [] \<and> rows ! i ! 14 = PyInt (- 1))"
proof -
  let ?d = "out_dirs ! i"
  have rows: "append_rows out_dirs = Inr (map row_of out_dirs)"
    using assms(1) by (intro append_rows_returns) simp
  have l: "length (metric_values ?d) = 11"
    by (simp add: length_metric_values FEATURE_COLUMNS_def)
  have c1: "row_of ?d ! 1 = PyStr (fst (name_and_label ?d))"
    by (simp add: row_of_def)
  have c14: "row_of ?d ! 14 = PyInt (snd (name_and_label ?d))"
    by (simp add: row_of_def nth_append l numeral_eq_Suc)
  have len: "length (row_of ?d) = length header"
    by (simp add: row_of_def l header_def FEATURE_COLUMNS_def)
  have h: "header ! 1 = PyStr ''function_name''" "header ! 14 = PyStr ''label''"
    by (simp_all add: header_def FEATURE_COLUMNS_def numeral_eq_Suc)
  have unk: "info_file ?d = Missing \<or> (\<exists>e. info_file ?d = Present (Inl e))
                \<longrightarrow> name_and_label ?d = (''unknown'', - 1)"
    by (auto simp add: name_and_label_def)
  have parsed: "\<forall>l. info_file ?d = Present (Inr l)
                \<longrightarrow> name_and_label ?d = (identifier_of_line l, label_of_name (identifier_of_line l))"
    by (simp add: name_and_label_def)
  have blank: "\<forall>l. info_file ?d = Present (Inr l) \<and> (\<forall>c\<in>set l. py_isspace c)
                \<longrightarrow> name_and_label ?d = ([], - 1)"
    by (simp add: name_and_label_def identifier_of_blank_line label_empty)
  have nth: "map row_of out_dirs ! i = row_of ?d"
    using assms(2) by simp
  show ?thesis
  proof (intro exI [of _ "map row_of out_dirs"] conjI)
    show "append_rows out_dirs = Inr (map row_of out_dirs)" by (rule rows)
    show "length (map row_of out_dirs) = length out_dirs" by simp
    show "length (map row_of out_dirs ! i) = length header" by (simp only: nth len)
    show "header ! 1 = PyStr ''function_name''" by (rule h)
    show "header ! 14 = PyStr ''label''" by (rule h)
    show "info_file ?d = Missing \<or> (\<exists>e. info_file ?d = Present (Inl e))
            \<longrightarrow> map row_of out_dirs ! i ! 1 = PyStr ''unknown''
                \<and> map row_of out_dirs ! i ! 14 = PyInt (- 1)"
      using unk by (auto simp only: nth c1 c14 fst_conv snd_conv)
    show "\<forall>l. info_file ?d = Present (Inr l)
            \<longrightarrow> map row_of out_dirs ! i ! 1 = PyStr (identifier_of_line l)
                \<and> map row_of out_dirs ! i ! 14 = PyInt (label_of_name (identifier_of_line l))"
      using parsed by (auto simp only: nth c1 c14 fst_conv snd_conv)
    show "\<forall>l. info_file ?d = Present (Inr l) \<and> (\<forall>c\<in>set l. py_isspace c)
            \<longrightarrow> map row_of out_dirs ! i ! 1 = PyStr []
                \<and> map row_of out_dirs ! i ! 14 = PyInt (- 1)"
      using blank by (auto simp only: nth c1 c14 fst_conv snd_conv)
  qed
qed

theorem placeholder_for_unreadable_metadata_witness:
  "\<exists>rows. append_rows [example_run ''klee-out-0'' (Present (Inr ''klee x_bad.bc'')) Missing,
                        example_run ''klee-out-1'' (Present (Inl UnicodeDecodeError)) Missing] = Inr rows
           \<and> length rows = 2
           \<and> rows ! 1 ! 1 = PyStr ''unknown''
           \<and> rows ! 1 ! 14 = PyInt (- 1)"
proof -
  let ?ds = "[example_run ''klee-out-0'' (Present (Inr ''klee x_bad.bc'')) Missing,
              example_run ''klee-out-1'' (Present (Inl UnicodeDecodeError)) Missing]"
  have r: "\<forall>d\<in>set ?ds. exists_returns d"
    by (simp add: example_run_def exists_returns_def)
  have i: "1 < length ?ds" by simp
  have u: "info_file (?ds ! 1) = Missing \<or> (\<exists>e. info_file (?ds ! 1) = Present (Inl e))"
    by (simp add: example_run_def)
  from placeholder_for_unreadable_metadata [OF r i]
  obtain rows where a: "append_rows ?ds = Inr rows" and b: "length rows = length ?ds"
    and c: "info_file (?ds ! 1) = Missing \<or> (\<exists>e. info_file (?ds ! 1) = Present (Inl e))
              \<longrightarrow> rows ! 1 ! 1 = PyStr ''unknown'' \<and> rows ! 1 ! 14 = PyInt (- 1)"
    by blast
  from c u have d: "rows ! 1 ! 1 = PyStr ''unknown'' \<and> rows ! 1 ! 14 = PyInt (- 1)"
    by (rule mp)
  have "length rows = 2" using b by simp
  with a d show ?thesis by blast
qed

text \<open>
  Claim C9 as stated fails for an \<open>info\<close> file that exists and is empty: nothing
  can be parsed from it, and the identifier cell of the row is the empty string, not
  \<open>unknown\<close>.
\<close>

theorem empty_metadata_row_counterexample:
  "append_rows [example_run ''klee-out-0'' (Present (Inr [])) Missing]
     = Inr [PyStr ''klee-out-0'' # PyStr [] # replicate 12 (PyInt 0) @ [PyInt (- 1)]]"
  by (simp add: example_run_def extract_info_and_label_def extract_stats_def stats_after_def
      count_warnings_def init_stats_def FEATURE_COLUMNS_def parse_first_line_def py_strip_def
      py_last_def path_stem_def path_name_def py_rfind_def label_of_name_def numeral_eq_Suc)

text \<open>
  Claim C8. When the results root does not exist, \<open>iterdir\<close> raises
  FileNotFoundError naming the root; nothing catches it, so \<open>main\<close> ends with
  that error: no directory is enumerated, no row is assembled, nothing is written.
\<close>

theorem missing_results_root_is_fatal:
  assumes "results_root fs = None"
  shows "collect_klee_outputs fs = Inl (FileNotFoundError ''results'')
         \<and> main writerows fs = Raised (FileNotFoundError ''results'')"
  using assms by (simp add: main_def collect_klee_outputs_def RESULTS_DIR_def)

theorem missing_results_root_is_fatal_witness:
  "main (\<lambda>table. table) \<lparr>results_root = None, output_open = None\<rparr>
     = Raised (FileNotFoundError ''results'')"
  using missing_results_root_is_fatal [of "\<lparr>results_root = None, output_open = None\<rparr>" "\<lambda>table. table"]
  by simp

lemma filter_same_key:
  "distinct (map f xs) \<Longrightarrow> k \<in> set xs \<Longrightarrow> filter (\<lambda>x. f k = f x) xs = [k]"
proof (induction xs)
  case Nil
  then show ?case by simp
next
  case (Cons a xs)
  show ?case
  proof (cases "k = a")
    case True
    have "filter (\<lambda>x. f a = f x) xs = []"
      using Cons.prems(1) by (auto simp add: filter_empty_conv image_iff)
    with True show ?thesis by simp
  next
    case False
    with Cons.prems have k: "k \<in> set xs" and d: "distinct (map f xs)" and "f a \<notin> f ` set xs"
      by auto
    then have "f k \<noteq> f a" by (metis imageI)
    with Cons.IH [OF d k] show ?thesis by simp
  qed
qed

lemma sort_key_permutation:
  fixes f :: "'a \<Rightarrow> 'k::linorder"
  assumes "mset xs = mset ys" and "distinct (map f xs)"
  shows "sort_key f xs = sort_key f ys"
proof (rule properties_for_sort_key)
  show "mset (sort_key f ys) = mset xs"
    using assms(1) by simp
  show "sorted (map f (sort_key f ys))"
    by simp
  have "mset (map f xs) = mset (map f ys)"
    using assms(1) by (metis mset_map)
  then have dy: "distinct (map f ys)"
    using assms(2) mset_eq_imp_distinct_iff by blast
  have sets: "set xs = set ys"
    using assms(1) by (rule mset_eq_setD)
  fix k
  assume "k \<in> set (sort_key f ys)"
  then have ky: "k \<in> set ys" by simp
  then have kx: "k \<in> set xs" using sets by simp
  have "filter (\<lambda>x. f k = f x) (sort_key f ys) = sort_key f (filter (\<lambda>x. f k = f x) ys)"
    by (rule filter_sort)
  also have "\<dots> = [k]"
    by (simp add: filter_same_key [OF dy ky])
  also have "\<dots> = filter (\<lambda>x. f k = f x) xs"
    by (simp add: filter_same_key [OF assms(2) kx])
  finally show "filter (\<lambda>x. f k = f x) (sort_key f ys) = filter (\<lambda>x. f k = f x) xs" .
qed

text \<open>
  Claim C5. Two runs over the same entries of the results root, in whatever order
  \<open>iterdir\<close> lists them, and with the same behaviour of the output file, end the
  same way and write the same file content: the entries are sorted by name, and
  names within one directory are distinct.
\<close>

theorem dataset_independent_of_listing_order:
  assumes "results_root fs1 = Some entries1" and "results_root fs2 = Some entries2"
    and "mset entries1 = mset entries2"
    and "distinct (map dir_name entries1)"
    and "output_open fs1 = output_open fs2"
  shows "main writerows fs1 = main writerows fs2"
proof -
  let ?P = "\<lambda>d. is_dir d \<and> py_startswith (dir_name d) KLEE_OUT_PREFIX"
  have m: "mset (filter ?P entries1) = mset (filter ?P entries2)"
    using assms(3) by (metis mset_filter)
  have d: "distinct (map dir_name (filter ?P entries1))"
    using assms(4) by (rule distinct_map_filter)
  have c: "collect_klee_outputs fs1 = collect_klee_outputs fs2"
    using assms(1,2) sort_key_permutation [OF m d]
    by (simp add: collect_klee_outputs_def)
  define g where "g = (\<lambda>c oo. case c of
        Inl e \<Rightarrow> Raised e
      | Inr out_dirs \<Rightarrow>
          if out_dirs = [] then NoDirs
          else (case append_rows out_dirs of
                  Inl e \<Rightarrow> Raised e
                | Inr rows \<Rightarrow>
                    (case oo of
                       Some e \<Rightarrow> Raised e
                     | None \<Rightarrow> Written (writerows (header # rows)))))"
  have "main writerows fs = g (collect_klee_outputs fs) (output_open fs)" for fs
    by (simp add: main_def g_def)
  with c assms(5) show ?thesis by simp
qed

theorem dataset_independent_of_listing_order_witness:
  "main (\<lambda>table. table)
     \<lparr>results_root = Some [example_run ''klee-out-1'' Missing Missing,
                           example_run ''klee-out-0'' (Present (Inr ''klee x_bad.bc'')) Missing],
      output_open = None\<rparr>
   = main (\<lambda>table. table)
     \<lparr>results_root = Some [example_run ''klee-out-0'' (Present (Inr ''klee x_bad.bc'')) Missing,
                           example_run ''klee-out-1'' Missing Missing],
      output_open = None\<rparr>"
  by (rule dataset_independent_of_listing_order
        [where ?entries1.0 = "[example_run ''klee-out-1'' Missing Missing,
                           example_run ''klee-out-0'' (Present (Inr ''klee x_bad.bc'')) Missing]"
           and ?entries2.0 = "[example_run ''klee-out-0'' (Present (Inr ''klee x_bad.bc'')) Missing,
                           example_run ''klee-out-1'' Missing Missing]"])
     (simp_all add: example_run_def)

text \<open>
  Claim C6. The trainer keeps the rows whose label is not -1. When none is left it
  prints its error and exits: the run has no split and no fit. Whenever the split is
  called, it is called on exactly the kept rows, and they are not empty.
\<close>

theorem trainer_without_labeled_rows:
  "(filter (\<lambda>r. row_label r \<noteq> - 1) df = [] \<longrightarrow>
      train_model train_test_split (Some df) =
        [Print '' Successfully loaded the dataset.'',
         PrintShape ''Original shape of the dataset: '' (length df),
         Print '' ERROR: After cleaning, no data with labels 0 or 1 was found.'',
         Print ''Please check your feature extraction script and CSV file.'',
         Exit])
   \<and> (\<forall>rows. TrainTestSplit rows \<in> set (train_model train_test_split (Some df)) \<longrightarrow>
         rows = filter (\<lambda>r. row_label r \<noteq> - 1) df \<and> rows \<noteq> [])
   \<and> (\<forall>rows. Fit rows \<in> set (train_model train_test_split (Some df)) \<longrightarrow>
         filter (\<lambda>r. row_label r \<noteq> - 1) df \<noteq> [])
   \<and> (filter (\<lambda>r. row_label r \<noteq> - 1) df \<noteq> [] \<longrightarrow>
         TrainTestSplit (filter (\<lambda>r. row_label r \<noteq> - 1) df)
           \<in> set (train_model train_test_split (Some df)))"
  by (auto simp add: train_model_def Let_def split: sum.splits prod.splits)

theorem trainer_without_labeled_rows_witness:
  "train_model (\<lambda>rows. Inr (rows, rows))
     (Some [\<lparr>row_features = (), row_label = - 1\<rparr>, \<lparr>row_features = (), row_label = - 1\<rparr>]) =
        [Print '' Successfully loaded the dataset.'',
         PrintShape ''Original shape of the dataset: '' 2,
         Print '' ERROR: After cleaning, no data with labels 0 or 1 was found.'',
         Print ''Please check your feature extraction script and CSV file.'',
         Exit]
   \<and> TrainTestSplit [\<lparr>row_features = (), row_label = 1\<rparr>]
        \<in> set (train_model (\<lambda>rows. Inr (rows, rows))
             (Some [\<lparr>row_features = (), row_label = - 1\<rparr>, \<lparr>row_features = (), row_label = 1\<rparr>]))"
  using trainer_without_labeled_rows [of "[\<lparr>row_features = (), row_label = - 1\<rparr>, \<lparr>row_features = (), row_label = - 1\<rparr>]" "\<lambda>rows. Inr (rows, rows)"]
    trainer_without_labeled_rows [of "[\<lparr>row_features = (), row_label = - 1\<rparr>, \<lparr>row_features = (), row_label = 1\<rparr>]" "\<lambda>rows. Inr (rows, rows)"]
  by simp

end
